theory Spec2Isabelle
  imports Main
begin

section \<open>The watcher of apisix-seed (internal/core/components/watcher.go)\<close>

text \<open>
  The watcher reads entities from stores, compares each change with the object cached for
  its key and calls the discovery backend of the entity. Its collaborators (the store, the
  entity predicates, the message codec, the discoverer registry, the logger) live in other
  packages. They appear here as the fields of an environment record or of the store record,
  so every theorem holds for whatever they compute.

  What a run leaves behind is a trace of events: the log lines and the calls made on
  discovery backends, in program order. A Go panic is a value: the run stops there.
  The tasks of one batch are goroutines in the source; the model runs them one after the
  other in the order of the batch. The semaphore and the wait group only schedule the
  tasks and are left out.
\<close>

subsection \<open>Data\<close>

text \<open>
  \<open>entity.Queer\<close>: an interface with the methods \<open>Extract\<close>, which returns the id, the
  service name and the arguments, and \<open>GetType\<close>, which returns the discovery type.
  A value of the interface is given by what the two methods return.
\<close>

record 'a Queer =
  qid :: string
  service :: string
  args :: 'a
  qtype :: string

definition Extract :: "'a Queer \<Rightarrow> string \<times> string \<times> 'a" where
  "Extract queer = (qid queer, service queer, args queer)"

definition GetType :: "'a Queer \<Rightarrow> string" where
  "GetType queer = qtype queer"

text \<open>
  The functions of the packages \<open>entity\<close>, \<open>discoverer\<close> and \<open>comm\<close> that the watcher
  calls. \<open>asQueer\<close> is the type assertion \<open>objPtr.(entity.Queer)\<close>: \<open>None\<close> when the
  dynamic type of the object does not implement the interface. An error is its message.
\<close>

record ('o, 'a, 'q, 'u) env =
  ServiceFilter :: "'o \<Rightarrow> bool"
  ServiceUpdate :: "'o \<Rightarrow> 'o \<Rightarrow> bool"
  ServiceReplace :: "'o \<Rightarrow> 'o \<Rightarrow> bool"
  asQueer :: "'o \<Rightarrow> 'a Queer option"
  EncodeEntityID :: "string \<Rightarrow> string \<Rightarrow> string"
  NewQuery :: "string list \<Rightarrow> 'a \<Rightarrow> string + 'q"
  NewUpdate :: "string list \<Rightarrow> 'a \<Rightarrow> 'a \<Rightarrow> string + 'u"
  QueryString :: "'q \<Rightarrow> string"

text \<open>
  \<open>storer.GenericStore\<close>: its type name \<open>Typ\<close>, the snapshot cache, the decoder
  \<open>StringToObjPtr\<close> (raw value first, key second) and what the backing store answers to
  a listing (an error, or the resident objects).
\<close>

record 'o GenericStore =
  Typ :: string
  cache :: "string \<rightharpoonup> 'o"
  StringToObjPtr :: "string \<Rightarrow> string \<Rightarrow> string + 'o"
  resident :: "string + 'o list"

text \<open>
  Modelled from the spec: the event kinds \<open>utils.EventAdd\<close>, \<open>utils.EventUpdate\<close> and
  \<open>utils.EventDelete\<close>, constants of the package \<open>utils\<close>, which is not among the
  sources. The spec names the kinds add, update and delete.
\<close>

definition EventAdd :: string where
  "EventAdd = ''add''"

definition EventUpdate :: string where
  "EventUpdate = ''update''"

definition EventDelete :: string where
  "EventDelete = ''delete''"

text \<open>
  Modelled from the spec: \<open>GenericStore.Store\<close>, which is not among the sources.
  "Store(key, object) \<rightarrow> (previous object or empty, existed bool): atomic upsert into the
  snapshot cache." The pair of the source is an option here: \<open>None\<close> is (empty, false).
\<close>

definition Store :: "'o GenericStore \<Rightarrow> string \<Rightarrow> 'o \<Rightarrow> 'o GenericStore \<times> 'o option" where
  "Store s key objPtr = (s\<lparr>cache := (cache s)(key \<mapsto> objPtr)\<rparr>, cache s key)"

text \<open>
  Modelled from the spec: \<open>GenericStore.Delete\<close>, which is not among the sources.
  "Delete(key) \<rightarrow> (object or empty, existed bool): atomic removal."
\<close>

definition Delete :: "'o GenericStore \<Rightarrow> string \<Rightarrow> 'o GenericStore \<times> 'o option" where
  "Delete s key = (s\<lparr>cache := (cache s)(key := None)\<rparr>, cache s key)"

text \<open>
  Modelled from the spec: \<open>GenericStore.List\<close>, which is not among the sources.
  "List(predicate) \<rightarrow> (sequence of objects, error): synchronous bulk read", "bulk listing
  filtered by a predicate". The store comes back with the answer, so that a write by the
  listing would show.
\<close>

definition List_store ::
  "'o GenericStore \<Rightarrow> ('o \<Rightarrow> bool) \<Rightarrow> 'o GenericStore \<times> (string + 'o list)" where
  "List_store s flt =
     (s, case resident s of Inl err \<Rightarrow> Inl err | Inr objPtrs \<Rightarrow> Inr (filter flt objPtrs))"

text \<open>
  The events of a run: \<open>log.Infof\<close> and \<open>log.Warnf\<close> with the format and the arguments
  as strings, and the two calls on a discovery backend,
  \<open>discoverer.GetDiscoverer(typ).Query(msg)\<close> and \<open>...Update(msg)\<close>, with the discovery
  type the backend is looked up by. The registry is taken to know every discovery type it
  is asked for, and the error a backend returns is discarded by the source.
\<close>

datatype ('q, 'u) event =
    Infof string "string list"
  | Warnf string "string list"
  | Query string 'q
  | Update string 'u

text \<open>
  The panics of the watcher: an index out of range (index, length), a failed type
  assertion on an object, and \<open>panic("storer list error")\<close>.
\<close>

datatype 'o panic =
    IndexOutOfRange nat nat
  | InterfaceConversion 'o
  | PanicString string

text \<open>The calls on discovery backends in a trace, log lines dropped.\<close>

fun is_dispatch :: "('q, 'u) event \<Rightarrow> bool" where
  "is_dispatch (Query typ msg) = True"
| "is_dispatch (Update typ msg) = True"
| "is_dispatch (Infof fmt xs) = False"
| "is_dispatch (Warnf fmt xs) = False"

definition dispatched :: "('q, 'u) event list \<Rightarrow> ('q, 'u) event list" where
  "dispatched tr = filter is_dispatch tr"

subsection \<open>Encoding messages\<close>

definition encodeQuery ::
  "('o, 'a, 'q, 'u) env \<Rightarrow> string \<Rightarrow> string \<Rightarrow> 'a Queer \<Rightarrow> string + 'q" where
  "encodeQuery e event typ queer =
     (case Extract queer of (ident, srv, ags) \<Rightarrow>
        let entityID = EncodeEntityID e typ ident;
            headerVals = [event, entityID, srv]
        in (case NewQuery e headerVals ags of
              Inl err \<Rightarrow> Inl err
            | Inr query \<Rightarrow> Inr query))"

definition encodeUpdate ::
  "('o, 'a, 'q, 'u) env \<Rightarrow> 'a Queer \<Rightarrow> 'a Queer \<Rightarrow> string + 'u" where
  "encodeUpdate e oldQueer newQueer =
     (case Extract oldQueer of (_, srv, ags) \<Rightarrow>
        (case Extract newQueer of (_, _, newArgs) \<Rightarrow>
           let headerVals = [EventUpdate, srv]
           in (case NewUpdate e headerVals ags newArgs of
                 Inl err \<Rightarrow> Inl err
               | Inr update \<Rightarrow> Inr update)))"

subsection \<open>Reconciliation\<close>

text \<open>
  \<open>handleQuery\<close>: the task of one listed object. The result is the trace and the panic,
  if any.
\<close>

definition handleQuery ::
  "('o, 'a, 'q, 'u) env \<Rightarrow> 'o \<Rightarrow> string \<Rightarrow> ('q, 'u) event list \<times> 'o panic option" where
  "handleQuery e objPtr typ =
     (case asQueer e objPtr of
        None \<Rightarrow> ([], Some (InterfaceConversion objPtr))
      | Some queer \<Rightarrow>
          (case encodeQuery e EventAdd typ queer of
             Inl err \<Rightarrow> ([Warnf ''Watcher encode query message error: %s'' [err]], None)
           | Inr query \<Rightarrow>
               ([Infof ''Watcher query: %s'' [QueryString e query],
                 Query (GetType queer) query], None)))"

text \<open>The inner loop of \<open>Init\<close>: one task for each listed object of a store.\<close>

fun handleQueries ::
  "('o, 'a, 'q, 'u) env \<Rightarrow> 'o list \<Rightarrow> string \<Rightarrow> ('q, 'u) event list \<times> 'o panic option" where
  "handleQueries e [] typ = ([], None)"
| "handleQueries e (objPtr # objPtrs) typ =
     (case handleQuery e objPtr typ of
        (tr, Some p) \<Rightarrow> (tr, Some p)
      | (tr, None) \<Rightarrow>
          (case handleQueries e objPtrs typ of (tr', r) \<Rightarrow> (tr @ tr', r)))"

text \<open>
  \<open>Init\<close>: the loop over the stores. The result is the stores as the run leaves them, the
  trace and the panic, if any.
\<close>

fun Init ::
  "('o, 'a, 'q, 'u) env \<Rightarrow> 'o GenericStore list \<Rightarrow>
     'o GenericStore list \<times> ('q, 'u) event list \<times> 'o panic option" where
  "Init e [] = ([], [], None)"
| "Init e (s # ss) =
     (case List_store s (ServiceFilter e) of
        (s', Inl err) \<Rightarrow> (s' # ss, [], Some (PanicString ''storer list error''))
      | (s', Inr objPtrs) \<Rightarrow>
          (case handleQueries e objPtrs (Typ s') of
             (tr, Some p) \<Rightarrow> (s' # ss, tr, Some p)
           | (tr, None) \<Rightarrow>
               (case Init e ss of (ss', tr', r) \<Rightarrow> (s' # ss', tr @ tr', r))))"

subsection \<open>Change classification\<close>

text \<open>
  \<open>handleValue\<close>: the task of one change record \<open>val\<close> of the store \<open>s\<close>. The first log
  line reads \<open>val[0]\<close>, \<open>val[1]\<close> and \<open>val[2]\<close> in this order, so a slice of length
  \<open>n < 3\<close> panics at index \<open>n\<close> before anything is logged. The result is the store as the
  task leaves it, the trace and the panic, if any.
\<close>

definition handleValue ::
  "('o, 'a, 'q, 'u) env \<Rightarrow> string list \<Rightarrow> 'o GenericStore \<Rightarrow>
     'o GenericStore \<times> ('q, 'u) event list \<times> 'o panic option" where
  "handleValue e val s =
     (if length val < 3 then (s, [], Some (IndexOutOfRange (length val) (length val)))
      else
        let l0 = Infof ''Watcher handle %s event: key=%s value=%s'' [val ! 0, val ! 1, val ! 2]
        in
        if val ! 0 = EventAdd then
          (case StringToObjPtr s (val ! 2) (val ! 1) of
             Inl err \<Rightarrow> (s, [l0, Warnf ''value string error: %s'' [err]], None)
           | Inr objPtr \<Rightarrow>
               if \<not> ServiceFilter e objPtr then (s, [l0], None)
               else
                 let entityID = EncodeEntityID e (Typ s) (val ! 1)
                 in
                 (case asQueer e objPtr of
                    None \<Rightarrow> (s, [l0], Some (InterfaceConversion objPtr))
                  | Some queer \<Rightarrow>
                      (case Store s (val ! 1) objPtr of
                         (s', None) \<Rightarrow>
                           let l1 = Infof ''Watcher obtains a new entity %s with service information''
                                      [entityID]
                           in
                           (case encodeQuery e EventAdd (Typ s') queer of
                              Inl err \<Rightarrow>
                                (s', [l0, l1, Warnf ''Watcher encode query message error: %s'' [err]],
                                 None)
                            | Inr query \<Rightarrow> (s', [l0, l1, Query (GetType queer) query], None))
                       | (s', Some oldObjPtr) \<Rightarrow>
                           if ServiceUpdate e oldObjPtr objPtr then
                             let l1 = Infof
                                   ''Watcher updates the service information of existing entity %s''
                                   [entityID]
                             in
                             (case asQueer e oldObjPtr of
                                None \<Rightarrow> (s', [l0, l1], Some (InterfaceConversion oldObjPtr))
                              | Some oldQueer \<Rightarrow>
                                  (case encodeUpdate e oldQueer queer of
                                     Inl err \<Rightarrow>
                                       (s', [l0, l1,
                                             Warnf ''Watcher encode update message error: %s'' [err]],
                                        None)
                                   | Inr update \<Rightarrow>
                                       (s', [l0, l1, Update (GetType queer) update], None)))
                           else if ServiceReplace e oldObjPtr objPtr then
                             let l1 = Infof
                                   ''Watcher replaces the service information of existing entity %s''
                                   [entityID]
                             in
                             (case asQueer e oldObjPtr of
                                None \<Rightarrow> (s', [l0, l1], Some (InterfaceConversion oldObjPtr))
                              | Some oldQueer \<Rightarrow>
                                  (case encodeQuery e EventDelete (Typ s') oldQueer of
                                     Inl err \<Rightarrow>
                                       (s', [l0, l1,
                                             Warnf ''Watcher encode query message error: %s'' [err]],
                                        None)
                                   | Inr del \<Rightarrow>
                                       (case encodeQuery e EventAdd (Typ s') queer of
                                          Inl err \<Rightarrow>
                                            (s', [l0, l1,
                                                  Warnf ''Watcher encode query message error: %s''
                                                    [err]],
                                             None)
                                        | Inr add \<Rightarrow>
                                            (s', [l0, l1, Query (GetType oldQueer) del,
                                                  Query (GetType queer) add], None))))
                           else (s', [l0], None))))
        else if val ! 0 = EventDelete then
          (case Delete s (val ! 1) of
             (s', None) \<Rightarrow> (s', [l0], None)
           | (s', Some objPtr) \<Rightarrow>
               let entityID = EncodeEntityID e (Typ s') (val ! 1);
                   l1 = Infof ''Watcher deletes an existing entity %s'' [entityID]
               in
               (case asQueer e objPtr of
                  None \<Rightarrow> (s', [l0, l1], Some (InterfaceConversion objPtr))
                | Some queer \<Rightarrow>
                    (case encodeQuery e EventDelete (Typ s') queer of
                       Inl err \<Rightarrow>
                         (s', [l0, l1, Warnf ''Watcher encode query message error: %s'' [err]],
                          None)
                     | Inr query \<Rightarrow> (s', [l0, l1, Query (GetType queer) query], None))))
        else (s, [l0], None))"

text \<open>
  The records of one store handled one after the other, as the loop of \<open>handleWatch\<close>
  hands them out: each task starts from the store the task before left. A panic ends the
  run.
\<close>

fun handleValues ::
  "('o, 'a, 'q, 'u) env \<Rightarrow> string list list \<Rightarrow> 'o GenericStore \<Rightarrow>
     'o GenericStore \<times> ('q, 'u) event list \<times> 'o panic option" where
  "handleValues e [] s = (s, [], None)"
| "handleValues e (val # vals) s =
     (case handleValue e val s of
        (s', tr, Some p) \<Rightarrow> (s', tr, Some p)
      | (s', tr, None) \<Rightarrow>
          (case handleValues e vals s' of (s'', tr', r) \<Rightarrow> (s'', tr @ tr', r)))"

subsection \<open>A concrete environment\<close>

text \<open>
  Stand-ins for the collaborators, to evaluate the watcher on concrete records. Arguments
  are key-value pairs; an object is a route, which implements \<open>Queer\<close>, or some other
  object, which does not. A route is service-bearing when its service name is not empty,
  updated when only the arguments differ, replaced when the service name or the discovery
  type differs. A message is its header and its payloads; encoding fails on an empty
  argument key. The decoder knows five raw values.
\<close>

type_synonym ex_args = "(string \<times> string) list"

datatype ex_obj = Route "ex_args Queer" | Other string

definition ex_queer :: "string \<Rightarrow> string \<Rightarrow> ex_args \<Rightarrow> string \<Rightarrow> ex_args Queer" where
  "ex_queer ident srv ags typ = \<lparr>qid = ident, service = srv, args = ags, qtype = typ\<rparr>"

definition ex_filter :: "ex_obj \<Rightarrow> bool" where
  "ex_filter obj = (case obj of Route q \<Rightarrow> service q \<noteq> [] | Other _ \<Rightarrow> False)"

definition ex_update :: "ex_obj \<Rightarrow> ex_obj \<Rightarrow> bool" where
  "ex_update old new =
     (case (old, new) of
        (Route a, Route b) \<Rightarrow> qtype a = qtype b \<and> service a = service b \<and> args a \<noteq> args b
      | _ \<Rightarrow> False)"

definition ex_replace :: "ex_obj \<Rightarrow> ex_obj \<Rightarrow> bool" where
  "ex_replace old new =
     (case (old, new) of
        (Route a, Route b) \<Rightarrow> qtype a \<noteq> qtype b \<or> service a \<noteq> service b
      | _ \<Rightarrow> False)"

definition ex_malformed :: "ex_args \<Rightarrow> bool" where
  "ex_malformed ags = ([] \<in> set (map fst ags))"

definition ex_env ::
  "(ex_obj, ex_args, string list \<times> ex_args, string list \<times> ex_args \<times> ex_args) env" where
  "ex_env =
     \<lparr>ServiceFilter = ex_filter,
      ServiceUpdate = ex_update,
      ServiceReplace = ex_replace,
      asQueer = (\<lambda>obj. case obj of Route q \<Rightarrow> Some q | Other _ \<Rightarrow> None),
      EncodeEntityID = (\<lambda>typ ident. typ @ '';'' @ ident),
      NewQuery = (\<lambda>h ags. if ex_malformed ags then Inl ''malformed arguments'' else Inr (h, ags)),
      NewUpdate = (\<lambda>h ags newArgs.
         if ex_malformed ags \<or> ex_malformed newArgs then Inl ''malformed arguments''
         else Inr (h, ags, newArgs)),
      QueryString = (\<lambda>(h, ags). concat h)\<rparr>"

definition ex_queerB :: "string \<Rightarrow> ex_args Queer" where
  "ex_queerB key = ex_queer key ''T1'' [(''weight'', ''1'')] ''nacos''"

definition ex_queerC :: "string \<Rightarrow> ex_args Queer" where
  "ex_queerC key = ex_queer key ''T1'' [(''weight'', ''2'')] ''nacos''"

definition ex_queerD :: "string \<Rightarrow> ex_args Queer" where
  "ex_queerD key = ex_queer key ''T2'' [(''weight'', ''2'')] ''zookeeper''"

definition ex_queerE :: "string \<Rightarrow> ex_args Queer" where
  "ex_queerE key = ex_queer key ''T3'' [([], ''2'')] ''nacos''"

definition ex_decode :: "string \<Rightarrow> string \<Rightarrow> string + ex_obj" where
  "ex_decode raw key =
     (if raw = ''rawA'' then Inr (Other key)
      else if raw = ''rawB'' then Inr (Route (ex_queerB key))
      else if raw = ''rawC'' then Inr (Route (ex_queerC key))
      else if raw = ''rawD'' then Inr (Route (ex_queerD key))
      else if raw = ''rawE'' then Inr (Route (ex_queerE key))
      else Inl ''unexpected end of JSON input'')"

definition ex_store :: "ex_obj GenericStore" where
  "ex_store =
     \<lparr>Typ = ''routes'',
      cache = Map.empty,
      StringToObjPtr = ex_decode,
      resident = Inr [Route (ex_queerB ''r1''), Other ''r2'', Route (ex_queerE ''r3''),
                      Route (ex_queerD ''r4'')]\<rparr>"

definition ex_cached :: "string \<Rightarrow> ex_obj \<Rightarrow> ex_obj GenericStore" where
  "ex_cached key obj = ex_store\<lparr>cache := [key \<mapsto> obj]\<rparr>"

definition ex_broken :: "ex_obj GenericStore" where
  "ex_broken = ex_store\<lparr>Typ := ''upstreams'', resident := Inl ''context deadline exceeded''\<rparr>"

section \<open>Properties\<close>

subsection \<open>Auxiliary facts\<close>

lemma Event_distinct: "EventAdd \<noteq> EventDelete" "EventDelete \<noteq> EventAdd"
  by (simp_all add: EventAdd_def EventDelete_def)

lemma dispatched_simps:
  "dispatched [] = []"
  "dispatched (Infof fmt xs # tr) = dispatched tr"
  "dispatched (Warnf fmt xs # tr) = dispatched tr"
  "dispatched (Query typ q # tr) = Query typ q # dispatched tr"
  "dispatched (Update typ u # tr) = Update typ u # dispatched tr"
  "dispatched (tr @ tr') = dispatched tr @ dispatched tr'"
  by (simp_all add: dispatched_def)

text \<open>The add branch of \<open>handleValue\<close>, once the object is decoded, filtered and stored.\<close>

lemma handleValue_add:
  assumes "3 \<le> length val" "val ! 0 = EventAdd"
    "StringToObjPtr s (val ! 2) (val ! 1) = Inr obj" "ServiceFilter e obj"
    "asQueer e obj = Some queer" "Store s (val ! 1) obj = (s', prev)"
  shows "handleValue e val s =
    (let l0 = Infof ''Watcher handle %s event: key=%s value=%s'' [val ! 0, val ! 1, val ! 2];
         entityID = EncodeEntityID e (Typ s) (val ! 1)
     in case prev of
       None \<Rightarrow>
         (let l1 = Infof ''Watcher obtains a new entity %s with service information'' [entityID]
          in case encodeQuery e EventAdd (Typ s) queer of
               Inl err \<Rightarrow> (s', [l0, l1, Warnf ''Watcher encode query message error: %s'' [err]], None)
             | Inr query \<Rightarrow> (s', [l0, l1, Query (GetType queer) query], None))
     | Some old \<Rightarrow>
         if ServiceUpdate e old obj then
           (let l1 = Infof ''Watcher updates the service information of existing entity %s'' [entityID]
            in case asQueer e old of
                 None \<Rightarrow> (s', [l0, l1], Some (InterfaceConversion old))
               | Some oldQueer \<Rightarrow>
                   (case encodeUpdate e oldQueer queer of
                      Inl err \<Rightarrow> (s', [l0, l1, Warnf ''Watcher encode update message error: %s'' [err]], None)
                    | Inr update \<Rightarrow> (s', [l0, l1, Update (GetType queer) update], None)))
         else if ServiceReplace e old obj then
           (let l1 = Infof ''Watcher replaces the service information of existing entity %s'' [entityID]
            in case asQueer e old of
                 None \<Rightarrow> (s', [l0, l1], Some (InterfaceConversion old))
               | Some oldQueer \<Rightarrow>
                   (case encodeQuery e EventDelete (Typ s) oldQueer of
                      Inl err \<Rightarrow> (s', [l0, l1, Warnf ''Watcher encode query message error: %s'' [err]], None)
                    | Inr del \<Rightarrow>
                        (case encodeQuery e EventAdd (Typ s) queer of
                           Inl err \<Rightarrow> (s', [l0, l1, Warnf ''Watcher encode query message error: %s'' [err]], None)
                         | Inr add \<Rightarrow> (s', [l0, l1, Query (GetType oldQueer) del, Query (GetType queer) add], None))))
         else (s', [l0], None))"
proof -
  have T: "Typ s' = Typ s" using assms(6) by (auto simp: Store_def)
  show ?thesis using assms(1-6) T
    by (simp add: handleValue_def Let_def split: option.splits sum.splits)
qed

text \<open>The delete branch of \<open>handleValue\<close>.\<close>

lemma handleValue_delete:
  assumes "3 \<le> length val" "val ! 0 = EventDelete" "Delete s (val ! 1) = (s', prev)"
  shows "handleValue e val s =
    (let l0 = Infof ''Watcher handle %s event: key=%s value=%s'' [val ! 0, val ! 1, val ! 2]
     in case prev of
       None \<Rightarrow> (s', [l0], None)
     | Some obj \<Rightarrow>
         (let l1 = Infof ''Watcher deletes an existing entity %s'' [EncodeEntityID e (Typ s) (val ! 1)]
          in case asQueer e obj of
               None \<Rightarrow> (s', [l0, l1], Some (InterfaceConversion obj))
             | Some queer \<Rightarrow>
                 (case encodeQuery e EventDelete (Typ s) queer of
                    Inl err \<Rightarrow> (s', [l0, l1, Warnf ''Watcher encode query message error: %s'' [err]], None)
                  | Inr query \<Rightarrow> (s', [l0, l1, Query (GetType queer) query], None))))"
proof -
  have T: "Typ s' = Typ s" using assms(3) by (auto simp: Delete_def)
  show ?thesis using assms T
    by (simp add: handleValue_def Let_def Event_distinct split: option.splits sum.splits)
qed

lemma Store_snd: "snd (Store s key obj) = cache s key"
  by (simp add: Store_def)

lemma Delete_snd: "snd (Delete s key) = cache s key"
  by (simp add: Delete_def)

subsection \<open>Indexing the record\<close>

text \<open>
  C10. \<open>handleValue\<close> reads the record at the positions 0, 1 and 2 whatever its kind, the
  last one for the first log line. On a record shorter than three strings the task panics
  with an index out of range, at the first missing position, before any effect. On a record
  of three strings or more no index panic occurs.
\<close>

theorem handleValue_index:
  "(length val < 3 \<longrightarrow>
      handleValue e val s = (s, [], Some (IndexOutOfRange (length val) (length val)))) \<and>
   (3 \<le> length val \<longrightarrow>
      (\<forall>i n. snd (snd (handleValue e val s)) \<noteq> Some (IndexOutOfRange i n)))"
  by (auto simp: handleValue_def Let_def Store_def Delete_def
      split: sum.splits option.splits prod.splits)

theorem handleValue_index_witness:
  "length [EventDelete, ''svc-1''] < 3 \<and>
   handleValue ex_env [EventDelete, ''svc-1''] ex_store =
     (ex_store, [], Some (IndexOutOfRange 2 2)) \<and>
   3 \<le> length [EventDelete, ''svc-1'', ''''] \<and>
   (\<forall>i n. snd (snd (handleValue ex_env [EventDelete, ''svc-1'', ''''] ex_store))
      \<noteq> Some (IndexOutOfRange i n))"
  using handleValue_index [where val = "[EventDelete, ''svc-1'']" and e = ex_env and s = ex_store]
    handleValue_index [where val = "[EventDelete, ''svc-1'', '''']" and e = ex_env and s = ex_store]
  by simp

subsection \<open>Classification of an add record\<close>

text \<open>
  C1, as the source has it. An add record whose raw value decodes to a service-bearing
  object that implements \<open>Queer\<close> is classified by what the atomic store returns. With no
  previous object and an add query that encodes, exactly that query is dispatched. With a
  previous object for which the update predicate holds and an update message that
  encodes from the old and the new arguments, exactly that update is dispatched. With a
  previous object for which the update predicate fails and the replace predicate holds,
  and both queries encoding, the delete of the old object and then the add of the new one
  are dispatched. With a previous object and neither predicate, nothing is dispatched.
\<close>

theorem handleValue_classification:
  assumes "3 \<le> length val" and "val ! 0 = EventAdd"
    and "StringToObjPtr s (val ! 2) (val ! 1) = Inr obj"
    and "ServiceFilter e obj" and "asQueer e obj = Some queer"
  shows
    "(snd (Store s (val ! 1) obj) = None \<and> encodeQuery e EventAdd (Typ s) queer = Inr query \<longrightarrow>
        dispatched (fst (snd (handleValue e val s))) = [Query (GetType queer) query]) \<and>
     (snd (Store s (val ! 1) obj) = Some old \<and> ServiceUpdate e old obj \<and>
      asQueer e old = Some oldQueer \<and>
      NewUpdate e [EventUpdate, service oldQueer] (args oldQueer) (args queer) = Inr update \<longrightarrow>
        dispatched (fst (snd (handleValue e val s))) = [Update (GetType queer) update]) \<and>
     (snd (Store s (val ! 1) obj) = Some old \<and> \<not> ServiceUpdate e old obj \<and>
      ServiceReplace e old obj \<and> asQueer e old = Some oldQueer \<and>
      encodeQuery e EventDelete (Typ s) oldQueer = Inr del \<and>
      encodeQuery e EventAdd (Typ s) queer = Inr add \<longrightarrow>
        dispatched (fst (snd (handleValue e val s))) =
          [Query (GetType oldQueer) del, Query (GetType queer) add]) \<and>
     (snd (Store s (val ! 1) obj) = Some old \<and> \<not> ServiceUpdate e old obj \<and>
      \<not> ServiceReplace e old obj \<longrightarrow>
        dispatched (fst (snd (handleValue e val s))) = [])"
proof -
  have st: "Store s (val ! 1) obj = (fst (Store s (val ! 1) obj), snd (Store s (val ! 1) obj))"
    by simp
  note hv = handleValue_add [OF assms st]
  have upd: "encodeUpdate e oldQueer queer =
      (case NewUpdate e [EventUpdate, service oldQueer] (args oldQueer) (args queer) of
         Inl err \<Rightarrow> Inl err | Inr u \<Rightarrow> Inr u)"
    by (simp add: encodeUpdate_def Extract_def)
  have c1: "snd (Store s (val ! 1) obj) = None \<and>
      encodeQuery e EventAdd (Typ s) queer = Inr query \<longrightarrow>
      dispatched (fst (snd (handleValue e val s))) = [Query (GetType queer) query]"
    by (simp add: hv Let_def dispatched_simps)
  have c2: "snd (Store s (val ! 1) obj) = Some old \<and> ServiceUpdate e old obj \<and>
      asQueer e old = Some oldQueer \<and>
      NewUpdate e [EventUpdate, service oldQueer] (args oldQueer) (args queer) = Inr update \<longrightarrow>
      dispatched (fst (snd (handleValue e val s))) = [Update (GetType queer) update]"
    by (simp add: hv Let_def dispatched_simps upd)
  have c3: "snd (Store s (val ! 1) obj) = Some old \<and> \<not> ServiceUpdate e old obj \<and>
      ServiceReplace e old obj \<and> asQueer e old = Some oldQueer \<and>
      encodeQuery e EventDelete (Typ s) oldQueer = Inr del \<and>
      encodeQuery e EventAdd (Typ s) queer = Inr add \<longrightarrow>
      dispatched (fst (snd (handleValue e val s))) =
        [Query (GetType oldQueer) del, Query (GetType queer) add]"
    by (simp add: hv Let_def dispatched_simps)
  have c4: "snd (Store s (val ! 1) obj) = Some old \<and> \<not> ServiceUpdate e old obj \<and>
      \<not> ServiceReplace e old obj \<longrightarrow>
      dispatched (fst (snd (handleValue e val s))) = []"
    by (simp add: hv Let_def dispatched_simps)
  from c1 c2 c3 c4 show ?thesis by blast
qed

lemmas ex_defs =
  ex_env_def ex_store_def ex_cached_def ex_broken_def ex_decode_def ex_filter_def
  ex_update_def ex_replace_def ex_malformed_def ex_queer_def ex_queerB_def ex_queerC_def
  ex_queerD_def ex_queerE_def EventAdd_def EventDelete_def EventUpdate_def
  encodeQuery_def encodeUpdate_def Extract_def GetType_def Store_def Delete_def

theorem handleValue_classification_witness:
  "dispatched (fst (snd (handleValue ex_env [EventAdd, ''svc-1'', ''rawB''] ex_store))) =
     [Query ''nacos'' ([''add'', ''routes;svc-1'', ''T1''], [(''weight'', ''1'')])] \<and>
   dispatched (fst (snd (handleValue ex_env [EventAdd, ''svc-1'', ''rawC'']
       (ex_cached ''svc-1'' (Route (ex_queerB ''svc-1'')))))) =
     [Update ''nacos'' ([''update'', ''T1''], [(''weight'', ''1'')], [(''weight'', ''2'')])] \<and>
   dispatched (fst (snd (handleValue ex_env [EventAdd, ''svc-1'', ''rawD'']
       (ex_cached ''svc-1'' (Route (ex_queerB ''svc-1'')))))) =
     [Query ''nacos'' ([''delete'', ''routes;svc-1'', ''T1''], [(''weight'', ''1'')]),
      Query ''zookeeper'' ([''add'', ''routes;svc-1'', ''T2''], [(''weight'', ''2'')])] \<and>
   dispatched (fst (snd (handleValue ex_env [EventAdd, ''svc-1'', ''rawB'']
       (ex_cached ''svc-1'' (Route (ex_queerB ''svc-1'')))))) = []"
proof -
  have new: "dispatched (fst (snd (handleValue ex_env [EventAdd, ''svc-1'', ''rawB''] ex_store))) =
     [Query ''nacos'' ([''add'', ''routes;svc-1'', ''T1''], [(''weight'', ''1'')])]"
    using handleValue_classification [where val = "[EventAdd, ''svc-1'', ''rawB'']"
        and e = ex_env and s = ex_store and obj = "Route (ex_queerB ''svc-1'')"
        and queer = "ex_queerB ''svc-1''"
        and query = "([''add'', ''routes;svc-1'', ''T1''], [(''weight'', ''1'')])"]
    by (simp add: ex_defs)
  have upd: "dispatched (fst (snd (handleValue ex_env [EventAdd, ''svc-1'', ''rawC'']
       (ex_cached ''svc-1'' (Route (ex_queerB ''svc-1'')))))) =
     [Update ''nacos'' ([''update'', ''T1''], [(''weight'', ''1'')], [(''weight'', ''2'')])]"
    using handleValue_classification [where val = "[EventAdd, ''svc-1'', ''rawC'']"
        and e = ex_env and s = "ex_cached ''svc-1'' (Route (ex_queerB ''svc-1''))"
        and obj = "Route (ex_queerC ''svc-1'')" and queer = "ex_queerC ''svc-1''"
        and old = "Route (ex_queerB ''svc-1'')" and oldQueer = "ex_queerB ''svc-1''"
        and update = "([''update'', ''T1''], [(''weight'', ''1'')], [(''weight'', ''2'')])"]
    by (simp add: ex_defs)
  have rep: "dispatched (fst (snd (handleValue ex_env [EventAdd, ''svc-1'', ''rawD'']
       (ex_cached ''svc-1'' (Route (ex_queerB ''svc-1'')))))) =
     [Query ''nacos'' ([''delete'', ''routes;svc-1'', ''T1''], [(''weight'', ''1'')]),
      Query ''zookeeper'' ([''add'', ''routes;svc-1'', ''T2''], [(''weight'', ''2'')])]"
    using handleValue_classification [where val = "[EventAdd, ''svc-1'', ''rawD'']"
        and e = ex_env and s = "ex_cached ''svc-1'' (Route (ex_queerB ''svc-1''))"
        and obj = "Route (ex_queerD ''svc-1'')" and queer = "ex_queerD ''svc-1''"
        and old = "Route (ex_queerB ''svc-1'')" and oldQueer = "ex_queerB ''svc-1''"
        and del = "([''delete'', ''routes;svc-1'', ''T1''], [(''weight'', ''1'')])"
        and add = "([''add'', ''routes;svc-1'', ''T2''], [(''weight'', ''2'')])"]
    by (simp add: ex_defs)
  have same: "dispatched (fst (snd (handleValue ex_env [EventAdd, ''svc-1'', ''rawB'']
       (ex_cached ''svc-1'' (Route (ex_queerB ''svc-1'')))))) = []"
    using handleValue_classification [where val = "[EventAdd, ''svc-1'', ''rawB'']"
        and e = ex_env and s = "ex_cached ''svc-1'' (Route (ex_queerB ''svc-1''))"
        and obj = "Route (ex_queerB ''svc-1'')" and queer = "ex_queerB ''svc-1''"
        and old = "Route (ex_queerB ''svc-1'')"]
    by (simp add: ex_defs)
  from new upd rep same show ?thesis by blast
qed

text \<open>
  C1 as stated fails where the add query does not encode: the record decodes to a
  service-bearing object, the store reports no previous object, and nothing is dispatched.
\<close>

theorem classification_new_not_dispatched:
  "StringToObjPtr ex_store ''rawE'' ''svc-1'' = Inr (Route (ex_queerE ''svc-1'')) \<and>
   ServiceFilter ex_env (Route (ex_queerE ''svc-1'')) \<and>
   snd (Store ex_store ''svc-1'' (Route (ex_queerE ''svc-1''))) = None \<and>
   dispatched (fst (snd (handleValue ex_env [EventAdd, ''svc-1'', ''rawE''] ex_store))) = []"
  by (simp add: handleValue_def dispatched_simps ex_defs)

subsection \<open>Replacement\<close>

text \<open>
  C2, as the source has it. An add record classified as a replacement (a previous object
  is cached, the update predicate fails and the replace predicate holds) for which both
  queries encode dispatches the delete query built from the old object and then the add
  query built from the new one, the first on the backend of the old object's discovery
  type and the second on the backend of the new object's, and stores the new object.
\<close>

theorem handleValue_replace:
  assumes "3 \<le> length val" and "val ! 0 = EventAdd"
    and "StringToObjPtr s (val ! 2) (val ! 1) = Inr obj"
    and "ServiceFilter e obj" and "asQueer e obj = Some queer"
    and "cache s (val ! 1) = Some old"
    and "\<not> ServiceUpdate e old obj" and "ServiceReplace e old obj"
    and "asQueer e old = Some oldQueer"
    and "NewQuery e [EventDelete, EncodeEntityID e (Typ s) (qid oldQueer), service oldQueer]
           (args oldQueer) = Inr del"
    and "NewQuery e [EventAdd, EncodeEntityID e (Typ s) (qid queer), service queer]
           (args queer) = Inr add"
  shows "handleValue e val s =
    (s\<lparr>cache := (cache s)(val ! 1 \<mapsto> obj)\<rparr>,
     [Infof ''Watcher handle %s event: key=%s value=%s'' [val ! 0, val ! 1, val ! 2],
      Infof ''Watcher replaces the service information of existing entity %s''
        [EncodeEntityID e (Typ s) (val ! 1)],
      Query (qtype oldQueer) del,
      Query (qtype queer) add],
     None)"
proof -
  have st: "Store s (val ! 1) obj = (s\<lparr>cache := (cache s)(val ! 1 \<mapsto> obj)\<rparr>, Some old)"
    using assms(6) by (simp add: Store_def)
  have d: "encodeQuery e EventDelete (Typ s) oldQueer = Inr del"
    using assms(10) by (simp add: encodeQuery_def Extract_def)
  have a: "encodeQuery e EventAdd (Typ s) queer = Inr add"
    using assms(11) by (simp add: encodeQuery_def Extract_def)
  show ?thesis
    using handleValue_add [OF assms(1-5) st] assms(7-9) d a
    by (simp add: Let_def GetType_def)
qed

theorem handleValue_replace_witness:
  "handleValue ex_env [EventAdd, ''svc-1'', ''rawD'']
     (ex_cached ''svc-1'' (Route (ex_queerB ''svc-1''))) =
   (ex_cached ''svc-1'' (Route (ex_queerD ''svc-1'')),
    [Infof ''Watcher handle %s event: key=%s value=%s'' [''add'', ''svc-1'', ''rawD''],
     Infof ''Watcher replaces the service information of existing entity %s'' [''routes;svc-1''],
     Query ''nacos'' ([''delete'', ''routes;svc-1'', ''T1''], [(''weight'', ''1'')]),
     Query ''zookeeper'' ([''add'', ''routes;svc-1'', ''T2''], [(''weight'', ''2'')])],
    None)"
  using handleValue_replace [where val = "[EventAdd, ''svc-1'', ''rawD'']"
      and e = ex_env and s = "ex_cached ''svc-1'' (Route (ex_queerB ''svc-1''))"
      and obj = "Route (ex_queerD ''svc-1'')" and queer = "ex_queerD ''svc-1''"
      and old = "Route (ex_queerB ''svc-1'')" and oldQueer = "ex_queerB ''svc-1''"
      and del = "([''delete'', ''routes;svc-1'', ''T1''], [(''weight'', ''1'')])"
      and add = "([''add'', ''routes;svc-1'', ''T2''], [(''weight'', ''2'')])"]
  by (simp add: ex_defs)

text \<open>
  C2 as stated fails where a query does not encode. The store reached by an add of
  \<open>rawE\<close> caches an object whose arguments do not encode; the add of \<open>rawD\<close> that
  follows is a replacement, and neither the delete nor the add is dispatched.
\<close>

theorem replace_not_dispatched:
  "fst (handleValue ex_env [EventAdd, ''svc-1'', ''rawE''] ex_store) =
     ex_cached ''svc-1'' (Route (ex_queerE ''svc-1'')) \<and>
   cache (ex_cached ''svc-1'' (Route (ex_queerE ''svc-1''))) ''svc-1'' =
     Some (Route (ex_queerE ''svc-1'')) \<and>
   StringToObjPtr (ex_cached ''svc-1'' (Route (ex_queerE ''svc-1''))) ''rawD'' ''svc-1'' =
     Inr (Route (ex_queerD ''svc-1'')) \<and>
   ServiceReplace ex_env (Route (ex_queerE ''svc-1'')) (Route (ex_queerD ''svc-1'')) \<and>
   dispatched (fst (snd (handleValue ex_env [EventAdd, ''svc-1'', ''rawD'']
     (ex_cached ''svc-1'' (Route (ex_queerE ''svc-1'')))))) = []"
  by (simp add: handleValue_def dispatched_simps ex_defs)

subsection \<open>Encode failures\<close>

lemma handleValues_Cons_ok:
  "snd (snd (handleValue e val s)) = None \<Longrightarrow>
   handleValues e (val # vals) s =
     (fst (handleValues e vals (fst (handleValue e val s))),
      fst (snd (handleValue e val s)) @ fst (snd (handleValues e vals (fst (handleValue e val s)))),
      snd (snd (handleValues e vals (fst (handleValue e val s)))))"
  by (cases "handleValue e val s") (auto split: prod.splits)

text \<open>
  C3, as the source has it. When an encode step of a record fails (\<open>NewQuery\<close> or
  \<open>NewUpdate\<close> returns an error), the handling of that record ends with a warning: no
  operation of the record is dispatched, so in a replacement the failure of either query
  drops both. The task returns without a panic and the records after it are handled, from
  the store the task left.
\<close>

theorem encode_failure_abandons_record:
  assumes "3 \<le> length val"
    and "(val ! 0 = EventAdd \<and> StringToObjPtr s (val ! 2) (val ! 1) = Inr obj \<and>
          ServiceFilter e obj \<and> asQueer e obj = Some queer \<and>
          (cache s (val ! 1) = None \<and> encodeQuery e EventAdd (Typ s) queer = Inl err \<or>
           cache s (val ! 1) = Some old \<and> ServiceUpdate e old obj \<and>
             asQueer e old = Some oldQueer \<and> encodeUpdate e oldQueer queer = Inl err \<or>
           cache s (val ! 1) = Some old \<and> \<not> ServiceUpdate e old obj \<and>
             ServiceReplace e old obj \<and> asQueer e old = Some oldQueer \<and>
             (encodeQuery e EventDelete (Typ s) oldQueer = Inl err \<or>
              encodeQuery e EventAdd (Typ s) queer = Inl err))) \<or>
         (val ! 0 = EventDelete \<and> cache s (val ! 1) = Some old \<and>
          asQueer e old = Some oldQueer \<and>
          encodeQuery e EventDelete (Typ s) oldQueer = Inl err)"
  shows "dispatched (fst (snd (handleValue e val s))) = [] \<and>
     (\<exists>fmt w. last (fst (snd (handleValue e val s))) = Warnf fmt [w]) \<and>
     snd (snd (handleValue e val s)) = None \<and>
     handleValues e (val # vals) s =
       (fst (handleValues e vals (fst (handleValue e val s))),
        fst (snd (handleValue e val s)) @
          fst (snd (handleValues e vals (fst (handleValue e val s)))),
        snd (snd (handleValues e vals (fst (handleValue e val s)))))"
proof -
  have body: "dispatched (fst (snd (handleValue e val s))) = [] \<and>
     (\<exists>fmt w. last (fst (snd (handleValue e val s))) = Warnf fmt [w]) \<and>
     snd (snd (handleValue e val s)) = None"
    using assms(2)
  proof (elim disjE conjE)
    assume h: "val ! 0 = EventAdd" "StringToObjPtr s (val ! 2) (val ! 1) = Inr obj"
      "ServiceFilter e obj" "asQueer e obj = Some queer"
      and c: "cache s (val ! 1) = None" "encodeQuery e EventAdd (Typ s) queer = Inl err"
    have st: "Store s (val ! 1) obj = (s\<lparr>cache := (cache s)(val ! 1 \<mapsto> obj)\<rparr>, None)"
      using c(1) by (simp add: Store_def)
    show ?thesis
      using handleValue_add [OF assms(1) h st] c(2) by (simp add: Let_def dispatched_simps)
  next
    assume h: "val ! 0 = EventAdd" "StringToObjPtr s (val ! 2) (val ! 1) = Inr obj"
      "ServiceFilter e obj" "asQueer e obj = Some queer"
      and c: "cache s (val ! 1) = Some old" "ServiceUpdate e old obj"
        "asQueer e old = Some oldQueer" "encodeUpdate e oldQueer queer = Inl err"
    have st: "Store s (val ! 1) obj = (s\<lparr>cache := (cache s)(val ! 1 \<mapsto> obj)\<rparr>, Some old)"
      using c(1) by (simp add: Store_def)
    show ?thesis
      using handleValue_add [OF assms(1) h st] c(2-4) by (simp add: Let_def dispatched_simps)
  next
    assume h: "val ! 0 = EventAdd" "StringToObjPtr s (val ! 2) (val ! 1) = Inr obj"
      "ServiceFilter e obj" "asQueer e obj = Some queer"
      and c: "cache s (val ! 1) = Some old" "\<not> ServiceUpdate e old obj"
        "ServiceReplace e old obj" "asQueer e old = Some oldQueer"
        "encodeQuery e EventDelete (Typ s) oldQueer = Inl err"
    have st: "Store s (val ! 1) obj = (s\<lparr>cache := (cache s)(val ! 1 \<mapsto> obj)\<rparr>, Some old)"
      using c(1) by (simp add: Store_def)
    show ?thesis
      using handleValue_add [OF assms(1) h st] c(2-5) by (simp add: Let_def dispatched_simps)
  next
    assume h: "val ! 0 = EventAdd" "StringToObjPtr s (val ! 2) (val ! 1) = Inr obj"
      "ServiceFilter e obj" "asQueer e obj = Some queer"
      and c: "cache s (val ! 1) = Some old" "\<not> ServiceUpdate e old obj"
        "ServiceReplace e old obj" "asQueer e old = Some oldQueer"
        "encodeQuery e EventAdd (Typ s) queer = Inl err"
    have st: "Store s (val ! 1) obj = (s\<lparr>cache := (cache s)(val ! 1 \<mapsto> obj)\<rparr>, Some old)"
      using c(1) by (simp add: Store_def)
    show ?thesis
      using handleValue_add [OF assms(1) h st] c(2-5)
      by (simp add: Let_def dispatched_simps split: sum.splits)
  next
    assume h: "val ! 0 = EventDelete"
      and c: "cache s (val ! 1) = Some old" "asQueer e old = Some oldQueer"
        "encodeQuery e EventDelete (Typ s) oldQueer = Inl err"
    have st: "Delete s (val ! 1) = (s\<lparr>cache := (cache s)(val ! 1 := None)\<rparr>, Some old)"
      using c(1) by (simp add: Delete_def)
    show ?thesis
      using handleValue_delete [OF assms(1) h st, of e] c(2-3) by (simp add: Let_def dispatched_simps)
  qed
  then show ?thesis using handleValues_Cons_ok [of e val s vals] by simp
qed

theorem encode_failure_abandons_record_witness:
  "(dispatched (fst (snd (handleValue ex_env [EventAdd, ''svc-1'', ''rawE''] ex_store))) = [] \<and>
    snd (snd (handleValue ex_env [EventAdd, ''svc-1'', ''rawE''] ex_store)) = None) \<and>
   (dispatched (fst (snd (handleValue ex_env [EventAdd, ''svc-1'', ''rawE'']
       (ex_cached ''svc-1'' (Route (ex_queerB ''svc-1'')))))) = [] \<and>
    snd (snd (handleValue ex_env [EventAdd, ''svc-1'', ''rawE'']
       (ex_cached ''svc-1'' (Route (ex_queerB ''svc-1''))))) = None) \<and>
   (dispatched (fst (snd (handleValue ex_env [EventDelete, ''svc-1'', '''']
       (ex_cached ''svc-1'' (Route (ex_queerE ''svc-1'')))))) = [] \<and>
    snd (snd (handleValue ex_env [EventDelete, ''svc-1'', '''']
       (ex_cached ''svc-1'' (Route (ex_queerE ''svc-1''))))) = None)"
proof -
  have new: "dispatched (fst (snd (handleValue ex_env [EventAdd, ''svc-1'', ''rawE''] ex_store))) = [] \<and>
    snd (snd (handleValue ex_env [EventAdd, ''svc-1'', ''rawE''] ex_store)) = None"
    using encode_failure_abandons_record [where val = "[EventAdd, ''svc-1'', ''rawE'']"
        and e = ex_env and s = ex_store and obj = "Route (ex_queerE ''svc-1'')"
        and queer = "ex_queerE ''svc-1''" and err = "''malformed arguments''"]
    by (simp add: ex_defs)
  have rep: "dispatched (fst (snd (handleValue ex_env [EventAdd, ''svc-1'', ''rawE'']
       (ex_cached ''svc-1'' (Route (ex_queerB ''svc-1'')))))) = [] \<and>
    snd (snd (handleValue ex_env [EventAdd, ''svc-1'', ''rawE'']
       (ex_cached ''svc-1'' (Route (ex_queerB ''svc-1''))))) = None"
    using encode_failure_abandons_record [where val = "[EventAdd, ''svc-1'', ''rawE'']"
        and e = ex_env and s = "ex_cached ''svc-1'' (Route (ex_queerB ''svc-1''))"
        and obj = "Route (ex_queerE ''svc-1'')" and queer = "ex_queerE ''svc-1''"
        and old = "Route (ex_queerB ''svc-1'')" and oldQueer = "ex_queerB ''svc-1''"
        and err = "''malformed arguments''"]
    by (simp add: ex_defs)
  have del: "dispatched (fst (snd (handleValue ex_env [EventDelete, ''svc-1'', '''']
       (ex_cached ''svc-1'' (Route (ex_queerE ''svc-1'')))))) = [] \<and>
    snd (snd (handleValue ex_env [EventDelete, ''svc-1'', '''']
       (ex_cached ''svc-1'' (Route (ex_queerE ''svc-1''))))) = None"
    using encode_failure_abandons_record [where val = "[EventDelete, ''svc-1'', '''']"
        and e = ex_env and s = "ex_cached ''svc-1'' (Route (ex_queerE ''svc-1''))"
        and old = "Route (ex_queerE ''svc-1'')" and oldQueer = "ex_queerE ''svc-1''"
        and err = "''malformed arguments''"]
    by (simp add: ex_defs)
  from new rep del show ?thesis by blast
qed

text \<open>
  C3 as stated fails in a replacement: with the object of \<open>rawB\<close> cached, the add of
  \<open>rawE\<close> is a replacement whose delete query encodes and whose add query does not, and
  the delete query is not dispatched either.
\<close>

theorem replace_encode_failure_drops_both:
  "cache (ex_cached ''svc-1'' (Route (ex_queerB ''svc-1''))) ''svc-1'' =
     Some (Route (ex_queerB ''svc-1'')) \<and>
   ServiceReplace ex_env (Route (ex_queerB ''svc-1'')) (Route (ex_queerE ''svc-1'')) \<and>
   encodeQuery ex_env EventDelete ''routes'' (ex_queerB ''svc-1'') =
     Inr ([''delete'', ''routes;svc-1'', ''T1''], [(''weight'', ''1'')]) \<and>
   encodeQuery ex_env EventAdd ''routes'' (ex_queerE ''svc-1'') = Inl ''malformed arguments'' \<and>
   dispatched (fst (snd (handleValue ex_env [EventAdd, ''svc-1'', ''rawE'']
     (ex_cached ''svc-1'' (Route (ex_queerB ''svc-1'')))))) = []"
  by (simp add: handleValue_def dispatched_simps ex_defs)

subsection \<open>Deleting an unknown key\<close>

lemma Delete_unknown:
  assumes "cache s key = None"
  shows "Delete s key = (s, None)"
proof -
  have "(cache s)(key := None) = cache s"
    using assms by (metis fun_upd_triv)
  then show ?thesis using assms by (simp add: Delete_def)
qed

text \<open>
  C4. A delete record whose key has no entry in the snapshot cache dispatches nothing and
  leaves the store as it was; the same record repeated any number of times does the same.
\<close>

theorem delete_unknown_key_noop:
  assumes "3 \<le> length val" and "val ! 0 = EventDelete" and "cache s (val ! 1) = None"
  shows "handleValue e val s =
      (s, [Infof ''Watcher handle %s event: key=%s value=%s'' [val ! 0, val ! 1, val ! 2]], None) \<and>
    fst (handleValues e (replicate n val) s) = s \<and>
    dispatched (fst (snd (handleValues e (replicate n val) s))) = [] \<and>
    snd (snd (handleValues e (replicate n val) s)) = None"
proof -
  have one: "handleValue e val s =
      (s, [Infof ''Watcher handle %s event: key=%s value=%s'' [val ! 0, val ! 1, val ! 2]], None)"
    using handleValue_delete [OF assms(1,2) Delete_unknown [OF assms(3)], of e]
    by (simp add: Let_def)
  have many: "fst (handleValues e (replicate n val) s) = s \<and>
    dispatched (fst (snd (handleValues e (replicate n val) s))) = [] \<and>
    snd (snd (handleValues e (replicate n val) s)) = None"
  proof (induction n)
    case 0
    then show ?case by (simp add: dispatched_simps)
  next
    case (Suc n)
    then show ?case
      by (cases "handleValues e (replicate n val) s") (simp add: one dispatched_simps)
  qed
  from one many show ?thesis by simp
qed

theorem delete_unknown_key_noop_witness:
  "cache ex_store ''svc-1'' = None \<and>
   handleValue ex_env [EventDelete, ''svc-1'', ''''] ex_store =
     (ex_store, [Infof ''Watcher handle %s event: key=%s value=%s'' [''delete'', ''svc-1'', '''']],
      None) \<and>
   fst (handleValues ex_env (replicate 3 [EventDelete, ''svc-1'', '''']) ex_store) = ex_store \<and>
   dispatched (fst (snd (handleValues ex_env (replicate 3 [EventDelete, ''svc-1'', '''']) ex_store)))
     = []"
  using delete_unknown_key_noop [where val = "[EventDelete, ''svc-1'', '''']" and e = ex_env
      and s = ex_store and n = 3]
  by (simp add: ex_store_def EventDelete_def)

subsection \<open>The snapshot cache\<close>







text \<open>What a task does to the cache: nothing, or an insertion of a service-bearing
  \<open>Queer\<close> at the key of the record, or a removal at that key.\<close>

lemma handleValue_cache:
  "cache (fst (handleValue e val s)) = cache s \<or>
   (\<exists>obj. ServiceFilter e obj \<and> asQueer e obj \<noteq> None \<and>
      cache (fst (handleValue e val s)) = (cache s)(val ! 1 \<mapsto> obj)) \<or>
   cache (fst (handleValue e val s)) = (cache s)(val ! 1 := None)"
proof (cases "3 \<le> length val \<and> val ! 0 = EventAdd")
  case True
  then show ?thesis
    by (auto simp: handleValue_def Let_def Store_def split: sum.splits option.splits)
next
  case False
  then show ?thesis
    by (auto simp: handleValue_def Let_def Delete_def split: sum.splits option.splits)
qed

lemma handleValue_keeps_queers:
  assumes "\<forall>key old. cache s key = Some old \<longrightarrow> ServiceFilter e old \<and> asQueer e old \<noteq> None"
  shows "\<forall>key old. cache (fst (handleValue e val s)) key = Some old \<longrightarrow>
    ServiceFilter e old \<and> asQueer e old \<noteq> None"
  using handleValue_cache [of e val s] assms
  by (elim disjE exE conjE) (simp_all split: if_splits)

lemma handleValues_keeps_queers:
  assumes "\<forall>key old. cache s key = Some old \<longrightarrow> ServiceFilter e old \<and> asQueer e old \<noteq> None"
  shows "\<forall>key old. cache (fst (handleValues e vals s)) key = Some old \<longrightarrow>
    ServiceFilter e old \<and> asQueer e old \<noteq> None"
  using assms
proof (induction vals arbitrary: s)
  case Nil
  then show ?case by simp
next
  case (Cons val vals)
  note step = handleValue_keeps_queers [OF Cons.prems, of val]
  obtain s' tr r where hv: "handleValue e val s = (s', tr, r)"
    by (cases "handleValue e val s") auto
  show ?case
  proof (cases r)
    case None
    with hv Cons.IH [of s'] step show ?thesis
      by (cases "handleValues e vals s'") simp
  next
    case (Some p)
    with hv step show ?thesis by simp
  qed
qed

text \<open>With service-bearing \<open>Queer\<close>s in the cache, the only type assertion that can fail
  is the one on the object just decoded.\<close>

lemma handleValue_conversion_new:
  assumes "\<forall>key old. cache s key = Some old \<longrightarrow> ServiceFilter e old \<and> asQueer e old \<noteq> None"
    and "snd (snd (handleValue e val s)) = Some (InterfaceConversion x)"
  shows "val ! 0 = EventAdd \<and> StringToObjPtr s (val ! 2) (val ! 1) = Inr x \<and> asQueer e x = None"
proof (cases "3 \<le> length val \<and> val ! 0 = EventAdd")
  case True
  with assms show ?thesis
    by (auto simp: handleValue_def Let_def Store_def split: sum.splits option.splits if_splits)
      (metis option.distinct(1))+
next
  case False
  with assms show ?thesis
    by (auto simp: handleValue_def Let_def Delete_def split: sum.splits option.splits if_splits)
      (metis option.distinct(1))+
qed

lemma handleValue_unfiltered:
  assumes "3 \<le> length val" and "val ! 0 = EventAdd"
    and "StringToObjPtr s (val ! 2) (val ! 1) = Inr obj" and "\<not> ServiceFilter e obj"
  shows "handleValue e val s =
    (s, [Infof ''Watcher handle %s event: key=%s value=%s'' [val ! 0, val ! 1, val ! 2]], None)"
  using assms by (simp add: handleValue_def Let_def)

text \<open>
  C9. In a store whose cache started empty and was written by the tasks of the watcher
  only, every cached object is service-bearing and implements \<open>Queer\<close>. So the previous
  object that \<open>Store\<close> or \<open>Delete\<close> returns to a task is service-bearing, the type
  assertion on it succeeds, and a task can fail a type assertion on the object it has
  just decoded only. A record whose decoded object is not service-bearing leaves the store
  as it was.
\<close>

theorem cached_objects_service_bearing:
  assumes "cache s0 = Map.empty" and "handleValues e vals s0 = (s, tr, None)"
  shows "(\<forall>key obj old. snd (Store s key obj) = Some old \<or> snd (Delete s key) = Some old \<longrightarrow>
            ServiceFilter e old \<and> asQueer e old \<noteq> None) \<and>
    (\<forall>val x. snd (snd (handleValue e val s)) = Some (InterfaceConversion x) \<longrightarrow>
            val ! 0 = EventAdd \<and> StringToObjPtr s (val ! 2) (val ! 1) = Inr x \<and>
            cache s (val ! 1) \<noteq> Some x) \<and>
    (\<forall>val obj. 3 \<le> length val \<and> val ! 0 = EventAdd \<and>
            StringToObjPtr s (val ! 2) (val ! 1) = Inr obj \<and> \<not> ServiceFilter e obj \<longrightarrow>
            fst (handleValue e val s) = s \<and> dispatched (fst (snd (handleValue e val s))) = [])"
proof -
  have "\<forall>key old. cache s0 key = Some old \<longrightarrow> ServiceFilter e old \<and> asQueer e old \<noteq> None"
    using assms(1) by simp
  from handleValues_keeps_queers [OF this, of vals] assms(2)
  have inv: "\<forall>key old. cache s key = Some old \<longrightarrow> ServiceFilter e old \<and> asQueer e old \<noteq> None"
    by simp
  have a: "\<forall>key obj old. snd (Store s key obj) = Some old \<or> snd (Delete s key) = Some old \<longrightarrow>
            ServiceFilter e old \<and> asQueer e old \<noteq> None"
    using inv by (simp add: Store_snd Delete_snd)
  have b: "\<forall>val x. snd (snd (handleValue e val s)) = Some (InterfaceConversion x) \<longrightarrow>
            val ! 0 = EventAdd \<and> StringToObjPtr s (val ! 2) (val ! 1) = Inr x \<and>
            cache s (val ! 1) \<noteq> Some x"
  proof (intro allI impI)
    fix val x
    assume "snd (snd (handleValue e val s)) = Some (InterfaceConversion x)"
    from handleValue_conversion_new [OF inv this]
    have n: "val ! 0 = EventAdd" "StringToObjPtr s (val ! 2) (val ! 1) = Inr x"
      "asQueer e x = None"
      by simp_all
    from inv n(3) have "cache s (val ! 1) \<noteq> Some x" by (metis option.distinct(1))
    with n show "val ! 0 = EventAdd \<and> StringToObjPtr s (val ! 2) (val ! 1) = Inr x \<and>
            cache s (val ! 1) \<noteq> Some x"
      by simp
  qed
  have c: "\<forall>val obj. 3 \<le> length val \<and> val ! 0 = EventAdd \<and>
            StringToObjPtr s (val ! 2) (val ! 1) = Inr obj \<and> \<not> ServiceFilter e obj \<longrightarrow>
            fst (handleValue e val s) = s \<and> dispatched (fst (snd (handleValue e val s))) = []"
    by (auto simp: handleValue_unfiltered dispatched_simps)
  from a b c show ?thesis by blast
qed

theorem cached_objects_service_bearing_witness:
  "cache ex_store = Map.empty \<and>
   handleValues ex_env [[EventAdd, ''svc-1'', ''rawB'']] ex_store =
     (ex_cached ''svc-1'' (Route (ex_queerB ''svc-1'')),
      [Infof ''Watcher handle %s event: key=%s value=%s'' [''add'', ''svc-1'', ''rawB''],
       Infof ''Watcher obtains a new entity %s with service information'' [''routes;svc-1''],
       Query ''nacos'' ([''add'', ''routes;svc-1'', ''T1''], [(''weight'', ''1'')])],
      None) \<and>
   snd (Delete (ex_cached ''svc-1'' (Route (ex_queerB ''svc-1''))) ''svc-1'') =
     Some (Route (ex_queerB ''svc-1'')) \<and>
   ServiceFilter ex_env (Route (ex_queerB ''svc-1'')) \<and>
   asQueer ex_env (Route (ex_queerB ''svc-1'')) \<noteq> None \<and>
   \<not> ServiceFilter ex_env (Other ''svc-1'') \<and>
   fst (handleValue ex_env [EventAdd, ''svc-1'', ''rawA'']
     (ex_cached ''svc-1'' (Route (ex_queerB ''svc-1'')))) =
     ex_cached ''svc-1'' (Route (ex_queerB ''svc-1''))"
proof -
  have start: "cache ex_store = Map.empty"
    by (simp add: ex_store_def)
  have run: "handleValues ex_env [[EventAdd, ''svc-1'', ''rawB'']] ex_store =
     (ex_cached ''svc-1'' (Route (ex_queerB ''svc-1'')),
      [Infof ''Watcher handle %s event: key=%s value=%s'' [''add'', ''svc-1'', ''rawB''],
       Infof ''Watcher obtains a new entity %s with service information'' [''routes;svc-1''],
       Query ''nacos'' ([''add'', ''routes;svc-1'', ''T1''], [(''weight'', ''1'')])],
      None)"
    by (simp add: handleValue_def ex_defs)
  note all = cached_objects_service_bearing [OF start run]
  have del: "snd (Delete (ex_cached ''svc-1'' (Route (ex_queerB ''svc-1''))) ''svc-1'') =
     Some (Route (ex_queerB ''svc-1''))"
    by (simp add: Delete_def ex_cached_def)
  from all del have a: "ServiceFilter ex_env (Route (ex_queerB ''svc-1'')) \<and>
     asQueer ex_env (Route (ex_queerB ''svc-1'')) \<noteq> None"
    by blast
  have pre: "3 \<le> length [EventAdd, ''svc-1'', ''rawA''] \<and>
     [EventAdd, ''svc-1'', ''rawA''] ! 0 = EventAdd \<and>
     StringToObjPtr (ex_cached ''svc-1'' (Route (ex_queerB ''svc-1'')))
       ([EventAdd, ''svc-1'', ''rawA''] ! 2) ([EventAdd, ''svc-1'', ''rawA''] ! 1) =
       Inr (Other ''svc-1'') \<and>
     \<not> ServiceFilter ex_env (Other ''svc-1'')"
    by (simp add: ex_defs)
  from all pre have c: "fst (handleValue ex_env [EventAdd, ''svc-1'', ''rawA'']
     (ex_cached ''svc-1'' (Route (ex_queerB ''svc-1'')))) =
     ex_cached ''svc-1'' (Route (ex_queerB ''svc-1''))"
    by blast
  from start run del a pre c show ?thesis by blast
qed

subsection \<open>Reconciliation\<close>

lemma handleQueries_append:
  "handleQueries e (xs @ ys) typ =
     (case handleQueries e xs typ of
        (tr, Some p) \<Rightarrow> (tr, Some p)
      | (tr, None) \<Rightarrow> (case handleQueries e ys typ of (tr', r) \<Rightarrow> (tr @ tr', r)))"
  by (induction xs) (auto split: prod.splits option.splits)

lemma Init_append:
  "Init e (ss1 @ ss2) =
     (case Init e ss1 of
        (ss1', tr, Some p) \<Rightarrow> (ss1' @ ss2, tr, Some p)
      | (ss1', tr, None) \<Rightarrow>
          (case Init e ss2 of (ss2', tr', r) \<Rightarrow> (ss1' @ ss2', tr @ tr', r)))"
  by (induction ss1) (auto split: prod.splits option.splits sum.splits)

lemma handleQuery_dispatched:
  "ev \<in> set (dispatched (fst (handleQuery e objPtr typ))) \<Longrightarrow>
   \<exists>queer query. asQueer e objPtr = Some queer \<and>
     encodeQuery e EventAdd typ queer = Inr query \<and> ev = Query (GetType queer) query"
  by (auto simp: handleQuery_def dispatched_simps split: option.splits sum.splits)

lemma handleQueries_dispatched:
  "ev \<in> set (dispatched (fst (handleQueries e objPtrs typ))) \<Longrightarrow>
   \<exists>objPtr \<in> set objPtrs. \<exists>queer query. asQueer e objPtr = Some queer \<and>
     encodeQuery e EventAdd typ queer = Inr query \<and> ev = Query (GetType queer) query"
proof (induction objPtrs)
  case Nil
  then show ?case by (simp add: dispatched_simps)
next
  case (Cons objPtr objPtrs)
  obtain tr r where hq: "handleQuery e objPtr typ = (tr, r)"
    by (cases "handleQuery e objPtr typ") auto
  from Cons.prems hq have "ev \<in> set (dispatched tr) \<or>
      ev \<in> set (dispatched (fst (handleQueries e objPtrs typ)))"
    by (cases r; cases "handleQueries e objPtrs typ") (auto simp: dispatched_simps)
  then show ?case
  proof
    assume "ev \<in> set (dispatched tr)"
    with hq handleQuery_dispatched [of ev e objPtr "typ"] show ?thesis by auto
  next
    assume "ev \<in> set (dispatched (fst (handleQueries e objPtrs typ)))"
    with Cons.IH show ?thesis by auto
  qed
qed

lemma Init_stores: "fst (Init e stores) = stores"
  by (induction stores) (auto simp: List_store_def split: prod.splits option.splits sum.splits)

lemma Init_dispatched:
  "ev \<in> set (dispatched (fst (snd (Init e stores)))) \<Longrightarrow>
   \<exists>s \<in> set stores. \<exists>queer query.
     encodeQuery e EventAdd (Typ s) queer = Inr query \<and> ev = Query (GetType queer) query"
proof (induction stores)
  case Nil
  then show ?case by (simp add: dispatched_simps)
next
  case (Cons s ss)
  show ?case
  proof (cases "resident s")
    case (Inl err)
    with Cons.prems show ?thesis by (simp add: List_store_def dispatched_simps)
  next
    case (Inr objPtrs)
    let ?objs = "filter (ServiceFilter e) objPtrs"
    obtain tr r where hq: "handleQueries e ?objs (Typ s) = (tr, r)"
      by (cases "handleQueries e ?objs (Typ s)") auto
    from Cons.prems Inr hq have "ev \<in> set (dispatched tr) \<or>
        ev \<in> set (dispatched (fst (snd (Init e ss))))"
      by (cases r; cases "Init e ss") (auto simp: List_store_def dispatched_simps)
    then show ?thesis
    proof
      assume "ev \<in> set (dispatched tr)"
      with hq handleQueries_dispatched [of ev e ?objs "Typ s"] show ?thesis by auto
    next
      assume "ev \<in> set (dispatched (fst (snd (Init e ss))))"
      with Cons.IH show ?thesis by auto
    qed
  qed
qed

text \<open>
  C6. \<open>Init\<close> leaves every store, and so the snapshot cache of every store, as it found
  it, whether it ends or panics; every call it makes on a discovery backend is the
  \<open>Query\<close> of an add query encoded for a store's type.
\<close>

theorem Init_leaves_cache:
  "fst (Init e stores) = stores \<and>
   map cache (fst (Init e stores)) = map cache stores \<and>
   (\<forall>ev \<in> set (dispatched (fst (snd (Init e stores)))).
      \<exists>s \<in> set stores. \<exists>queer query.
        encodeQuery e EventAdd (Typ s) queer = Inr query \<and> ev = Query (GetType queer) query)"
  using Init_stores [of e stores] Init_dispatched [of _ e stores] by auto

theorem Init_leaves_cache_witness:
  "fst (Init ex_env [ex_cached ''svc-1'' (Other ''svc-1''), ex_broken]) =
     [ex_cached ''svc-1'' (Other ''svc-1''), ex_broken] \<and>
   Query ''zookeeper'' ([''add'', ''routes;r4'', ''T2''], [(''weight'', ''2'')])
     \<in> set (dispatched (fst (snd (Init ex_env [ex_cached ''svc-1'' (Other ''svc-1''), ex_broken])))) \<and>
   (\<exists>s \<in> set [ex_cached ''svc-1'' (Other ''svc-1''), ex_broken]. \<exists>queer query.
      encodeQuery ex_env EventAdd (Typ s) queer = Inr query \<and>
      Query ''zookeeper'' ([''add'', ''routes;r4'', ''T2''], [(''weight'', ''2'')]) =
        Query (GetType queer) query)"
proof -
  note all = Init_leaves_cache [of ex_env "[ex_cached ''svc-1'' (Other ''svc-1''), ex_broken]"]
  have m: "Query ''zookeeper'' ([''add'', ''routes;r4'', ''T2''], [(''weight'', ''2'')])
     \<in> set (dispatched (fst (snd (Init ex_env [ex_cached ''svc-1'' (Other ''svc-1''), ex_broken]))))"
    by (simp add: List_store_def handleQuery_def dispatched_simps ex_defs)
  from all m show ?thesis by blast
qed

text \<open>
  C7. When the listing of a store fails, \<open>Init\<close> panics with "storer list error": the
  trace is what the stores before it produced, and no store after it is reconciled. When
  the add query of one listed object does not encode, its task logs a warning and ends,
  and the tasks of the objects after it in the batch run as they would have.
\<close>

theorem Init_list_error_encode_error:
  "(Init e ss1 = (ss1', tr1, None) \<and> snd (List_store s (ServiceFilter e)) = Inl err \<longrightarrow>
      Init e (ss1 @ s # ss2) =
        (ss1' @ s # ss2, tr1, Some (PanicString ''storer list error''))) \<and>
   (asQueer e objPtr = Some queer \<and> encodeQuery e EventAdd typ queer = Inl err' \<and>
    handleQueries e objPtrs1 typ = (tr1', None) \<longrightarrow>
      handleQuery e objPtr typ =
        ([Warnf ''Watcher encode query message error: %s'' [err']], None) \<and>
      handleQueries e (objPtrs1 @ objPtr # objPtrs2) typ =
        (tr1' @ Warnf ''Watcher encode query message error: %s'' [err'] #
           fst (handleQueries e objPtrs2 typ),
         snd (handleQueries e objPtrs2 typ)))"
proof -
  have a: "Init e ss1 = (ss1', tr1, None) \<and> snd (List_store s (ServiceFilter e)) = Inl err \<longrightarrow>
      Init e (ss1 @ s # ss2) =
        (ss1' @ s # ss2, tr1, Some (PanicString ''storer list error''))"
    by (auto simp: Init_append List_store_def split: sum.splits)
  have b: "asQueer e objPtr = Some queer \<and> encodeQuery e EventAdd typ queer = Inl err' \<and>
    handleQueries e objPtrs1 typ = (tr1', None) \<longrightarrow>
      handleQuery e objPtr typ =
        ([Warnf ''Watcher encode query message error: %s'' [err']], None) \<and>
      handleQueries e (objPtrs1 @ objPtr # objPtrs2) typ =
        (tr1' @ Warnf ''Watcher encode query message error: %s'' [err'] #
           fst (handleQueries e objPtrs2 typ),
         snd (handleQueries e objPtrs2 typ))"
    by (auto simp: handleQueries_append handleQuery_def split: prod.splits)
  from a b show ?thesis by blast
qed

theorem Init_list_error_encode_error_witness:
  "Init ex_env [ex_store, ex_broken, ex_store] =
     ([ex_store, ex_broken, ex_store],
      [Infof ''Watcher query: %s'' [''addroutes;r1T1''],
       Query ''nacos'' ([''add'', ''routes;r1'', ''T1''], [(''weight'', ''1'')]),
       Warnf ''Watcher encode query message error: %s'' [''malformed arguments''],
       Infof ''Watcher query: %s'' [''addroutes;r4T2''],
       Query ''zookeeper'' ([''add'', ''routes;r4'', ''T2''], [(''weight'', ''2'')])],
      Some (PanicString ''storer list error'')) \<and>
   handleQueries ex_env
     [Route (ex_queerB ''r1''), Route (ex_queerE ''r3''), Route (ex_queerD ''r4'')] ''routes'' =
     ([Infof ''Watcher query: %s'' [''addroutes;r1T1''],
       Query ''nacos'' ([''add'', ''routes;r1'', ''T1''], [(''weight'', ''1'')]),
       Warnf ''Watcher encode query message error: %s'' [''malformed arguments''],
       Infof ''Watcher query: %s'' [''addroutes;r4T2''],
       Query ''zookeeper'' ([''add'', ''routes;r4'', ''T2''], [(''weight'', ''2'')])],
      None)"
proof -
  let ?tr = "[Infof ''Watcher query: %s'' [''addroutes;r1T1''],
       Query ''nacos'' ([''add'', ''routes;r1'', ''T1''], [(''weight'', ''1'')]),
       Warnf ''Watcher encode query message error: %s'' [''malformed arguments''],
       Infof ''Watcher query: %s'' [''addroutes;r4T2''],
       Query ''zookeeper'' ([''add'', ''routes;r4'', ''T2''], [(''weight'', ''2'')])]"
  have i1: "Init ex_env [ex_store] = ([ex_store], ?tr, None)"
    by (simp add: List_store_def handleQuery_def ex_defs)
  have l: "snd (List_store ex_broken (ServiceFilter ex_env)) = Inl ''context deadline exceeded''"
    by (simp add: List_store_def ex_broken_def)
  have fatal: "Init ex_env ([ex_store] @ ex_broken # [ex_store]) =
      ([ex_store] @ ex_broken # [ex_store], ?tr, Some (PanicString ''storer list error''))"
    using Init_list_error_encode_error [where e = ex_env and ?ss1.0 = "[ex_store]"
        and ss1' = "[ex_store]" and ?tr1.0 = ?tr and s = ex_broken
        and err = "''context deadline exceeded''" and ?ss2.0 = "[ex_store]"] i1 l
    by blast
  have q1: "handleQueries ex_env [Route (ex_queerB ''r1'')] ''routes'' =
      ([Infof ''Watcher query: %s'' [''addroutes;r1T1''],
        Query ''nacos'' ([''add'', ''routes;r1'', ''T1''], [(''weight'', ''1'')])], None)"
    by (simp add: handleQuery_def ex_defs)
  have q2: "asQueer ex_env (Route (ex_queerE ''r3'')) = Some (ex_queerE ''r3'') \<and>
      encodeQuery ex_env EventAdd ''routes'' (ex_queerE ''r3'') = Inl ''malformed arguments''"
    by (simp add: ex_defs)
  have q3: "handleQueries ex_env [Route (ex_queerD ''r4'')] ''routes'' =
      ([Infof ''Watcher query: %s'' [''addroutes;r4T2''],
        Query ''zookeeper'' ([''add'', ''routes;r4'', ''T2''], [(''weight'', ''2'')])], None)"
    by (simp add: handleQuery_def ex_defs)
  have skipped: "handleQueries ex_env
      ([Route (ex_queerB ''r1'')] @ Route (ex_queerE ''r3'') # [Route (ex_queerD ''r4'')]) ''routes'' =
      (?tr, None)"
    using Init_list_error_encode_error [of ex_env _ _ _ _ _ _ "Route (ex_queerE ''r3'')"
        "ex_queerE ''r3''" "''routes''" "''malformed arguments''"
        "[Route (ex_queerB ''r1'')]"
        "[Infof ''Watcher query: %s'' [''addroutes;r1T1''],
          Query ''nacos'' ([''add'', ''routes;r1'', ''T1''], [(''weight'', ''1'')])]"
        "[Route (ex_queerD ''r4'')]"] q1 q2 q3
    by (simp add: handleQuery_def ex_defs)
  from fatal skipped show ?thesis by simp
qed

end
